theory Spec2Isabelle
  imports Complex_Main
begin

section \<open>Python and numpy values\<close>

text \<open>
  The development embeds \<^verbatim>\<open>pygaps/calculations/bet.py\<close> and the Henry and Virial
  isotherm models. Python floats are idealised as real numbers: rounding, overflow,
  \<^verbatim>\<open>inf\<close> and \<^verbatim>\<open>nan\<close> are not represented (numpy divides by zero without raising;
  HOL's \<open>x / 0\<close> is \<open>0\<close>). The properties below are about control flow, indices,
  errors and the algebra of the formulas, none about the value of a division by zero.
  Indices are Python integers (\<open>int\<close>), a one-dimensional numpy array is a list, and
  every \<^verbatim>\<open>raise\<close> is an \<open>Inl\<close> of the sum type \<open>error + 'a\<close>.
  The functions are modelled for \<^verbatim>\<open>verbose=False\<close> (the default): the verbose
  branches only print and plot through external collaborators.
\<close>

datatype error =
    Exception string
  | IndexError
  | KeyError
  | ValueError
  | NotImplementedError
  | ZeroDivisionError
  | CalculationError string

text \<open>A Python number that may have become complex (\<^verbatim>\<open>scipy.sqrt\<close> of a negative).\<close>

datatype pynum = PyFloat real | PyComplex complex

text \<open>\<^verbatim>\<open>xs[i]\<close>: a negative index counts from the end, anything out of range raises.\<close>

definition py_index :: "'a list \<Rightarrow> int \<Rightarrow> error + 'a" where
  "py_index xs i =
     (if 0 \<le> i \<and> i < int (length xs) then Inr (xs ! nat i)
      else if i < 0 \<and> - int (length xs) \<le> i then Inr (xs ! nat (i + int (length xs)))
      else Inl IndexError)"

text \<open>\<^verbatim>\<open>xs[i:j]\<close>: bounds are shifted when negative and clamped, never an error.\<close>

definition slice_bound :: "nat \<Rightarrow> int \<Rightarrow> nat" where
  "slice_bound n k = (if k < 0 then nat (max 0 (k + int n)) else min (nat k) n)"

definition py_slice :: "'a list \<Rightarrow> int \<Rightarrow> int \<Rightarrow> 'a list" where
  "py_slice xs i j =
     take (slice_bound (length xs) j - slice_bound (length xs) i)
          (drop (slice_bound (length xs) i) xs)"

text \<open>
  An elementwise numpy operation on two one-dimensional arrays: equal lengths pair up,
  a one-element array is broadcast, any other combination raises \<^verbatim>\<open>ValueError\<close>.
\<close>

definition np_elementwise :: "(real \<Rightarrow> real \<Rightarrow> real) \<Rightarrow> real list \<Rightarrow> real list \<Rightarrow> error + real list" where
  "np_elementwise f xs ys =
     (if length xs = length ys then Inr (map2 f xs ys)
      else if length xs = 1 then Inr (map (f (hd xs)) ys)
      else if length ys = 1 then Inr (map (\<lambda>x. f x (hd ys)) xs)
      else Inl ValueError)"

text \<open>\<^verbatim>\<open>warnings.warn(msg)\<close> writes to the process-wide warnings channel; the model
  records every call, in order.\<close>

definition warnings_warn :: "string \<Rightarrow> string list \<Rightarrow> string list" where
  "warnings_warn msg channel = channel @ [msg]"

section \<open>The scipy functions used by bet.py\<close>

text \<open>
  \<^verbatim>\<open>scipy.stats.linregress\<close> and \<^verbatim>\<open>scipy.constants.Avogadro\<close> belong to a library
  outside the repository; the BET functions take them as parameters.
\<close>

record scipy =
  linregress :: "real list \<Rightarrow> real list \<Rightarrow> error + (real \<times> real \<times> real)"
  Avogadro :: real

text \<open>
  \<^verbatim>\<open>scipy.sqrt\<close> is numpy's \<^verbatim>\<open>scimath.sqrt\<close>: a float for a non-negative argument,
  the principal complex root for a negative one.
\<close>

definition scipy_sqrt :: "real \<Rightarrow> pynum" where
  "scipy_sqrt x = (if x < 0 then PyComplex (csqrt (complex_of_real x)) else PyFloat (sqrt x))"

text \<open>
  Ordinary least squares as \<^verbatim>\<open>scipy.stats.linregress\<close> documents it (slope, intercept
  and Pearson's r from the biased covariances; empty or mismatched input raises
  \<^verbatim>\<open>ValueError\<close>). It instantiates the parameter in the concrete examples.
\<close>

definition mean :: "real list \<Rightarrow> real" where
  "mean xs = sum_list xs / real (length xs)"

definition covariance :: "real list \<Rightarrow> real list \<Rightarrow> real" where
  "covariance xs ys =
     sum_list (map2 (\<lambda>x y. (x - mean xs) * (y - mean ys)) xs ys) / real (length xs)"

definition least_squares :: "real list \<Rightarrow> real list \<Rightarrow> error + (real \<times> real \<times> real)" where
  "least_squares x y =
     (if x = [] \<or> y = [] \<or> length x \<noteq> length y then Inl ValueError
      else let ssxm = covariance x x; ssxym = covariance x y; ssym = covariance y y;
               r_den = sqrt (ssxm * ssym);
               r = (if r_den = 0 then 0 else max (- 1) (min 1 (ssxym / r_den)));
               slope = ssxym / ssxm;
               intercept = mean y - slope * mean x
           in Inr (slope, intercept, r))"

definition scipy_lsq :: scipy where
  "scipy_lsq = \<lparr> linregress = least_squares, Avogadro = 602214076 * 10 ^ 15 \<rparr>"

section \<open>bet.py: transforms, optimisation and parameters\<close>

text \<open>\<^verbatim>\<open>roq_transform\<close>: \<^verbatim>\<open>loading * (1 - pressure)\<close>.\<close>

definition roq_transform :: "real list \<Rightarrow> real list \<Rightarrow> error + real list" where
  "roq_transform loading pressure =
     np_elementwise (\<lambda>l q. l * q) loading (map (\<lambda>p. 1 - p) pressure)"

text \<open>\<^verbatim>\<open>bet_transform\<close>: \<^verbatim>\<open>pressure / roq_transform(loading, pressure)\<close>.\<close>

definition bet_transform :: "real list \<Rightarrow> real list \<Rightarrow> error + real list" where
  "bet_transform loading pressure =
     (case roq_transform loading pressure of
        Inl e \<Rightarrow> Inl e
      | Inr roq \<Rightarrow> np_elementwise (\<lambda>p r. p / r) pressure roq)"

text \<open>\<^verbatim>\<open>bet_optimisation\<close>: the first three results of \<^verbatim>\<open>linregress(pressure, bet_points)\<close>.\<close>

definition bet_optimisation :: "scipy \<Rightarrow> real list \<Rightarrow> real list \<Rightarrow> error + (real \<times> real \<times> real)" where
  "bet_optimisation lib pressure bet_points =
     (case linregress lib pressure bet_points of
        Inl e \<Rightarrow> Inl e
      | Inr (slope, intercept, corr_coef) \<Rightarrow> Inr (slope, intercept, corr_coef))"

text \<open>\<^verbatim>\<open>bet_parameters\<close>, returning \<^verbatim>\<open>(n_monolayer, p_monolayer, c_const, bet_area)\<close>.\<close>

definition bet_parameters :: "scipy \<Rightarrow> real \<Rightarrow> real \<Rightarrow> real \<Rightarrow> real \<times> pynum \<times> real \<times> real" where
  "bet_parameters lib slope intercept cross_section =
     (let c_const = (slope / intercept) + 1;
          n_monolayer = 1 / (intercept * c_const);
          p_monolayer = (case scipy_sqrt c_const of
                           PyFloat s \<Rightarrow> PyFloat (1 / (s + 1))
                         | PyComplex s \<Rightarrow> PyComplex (1 / (s + 1)));
          bet_area = n_monolayer * cross_section * (1 / 10 ^ 18) * Avogadro lib
      in (n_monolayer, p_monolayer, c_const, bet_area))"

section \<open>bet.py: region selection (lines 227 to 254 of area_BET_raw)\<close>

text \<open>
  \<^verbatim>\<open>for index, value in enumerate(roq_t_array):\<close>
  \<^verbatim>\<open>    if value > roq_t_array[index + 1]: maximum = index; break\<close>
  The read of \<^verbatim>\<open>roq_t_array[index + 1]\<close> is an indexing like any other.
\<close>

fun roq_scan :: "real list \<Rightarrow> (nat \<times> real) list \<Rightarrow> int \<Rightarrow> error + int" where
  "roq_scan roq_t_array [] maximum = Inr maximum"
| "roq_scan roq_t_array ((index, value) # rest) maximum =
     (case py_index roq_t_array (int index + 1) of
        Inl e \<Rightarrow> Inl e
      | Inr next_value \<Rightarrow>
          if value > next_value then Inr (int index)
          else roq_scan roq_t_array rest maximum)"

text \<open>
  \<^verbatim>\<open>for index, value in items: if cond(value): result = index; break\<close>,
  the shape of the three threshold scans over the pressure array.
\<close>

fun threshold_scan :: "(real \<Rightarrow> bool) \<Rightarrow> (nat \<times> real) list \<Rightarrow> int \<Rightarrow> int" where
  "threshold_scan cond [] result = result"
| "threshold_scan cond ((index, value) # rest) result =
     (if cond value then int index else threshold_scan cond rest result)"

definition region_selection ::
  "real list \<Rightarrow> real list \<Rightarrow> (real \<times> real) option \<Rightarrow> error + (int \<times> int)" where
  "region_selection roq_t_array pressure limits =
     (case limits of
        None \<Rightarrow>
          (case roq_scan roq_t_array (enumerate 0 roq_t_array) (int (length roq_t_array) - 1) of
             Inl e \<Rightarrow> Inl e
           | Inr maximum \<Rightarrow>
               (case py_index pressure maximum of
                  Inl e \<Rightarrow> Inl e
                | Inr p_max \<Rightarrow>
                    let min_p = p_max / 10;
                        minimum = threshold_scan (\<lambda>value. value > min_p) (enumerate 0 pressure) 0
                    in Inr (minimum, maximum)))
      | Some (low, high) \<Rightarrow>
          let max_p = high;
              maximum = threshold_scan (\<lambda>value. value < max_p) (rev (enumerate 0 pressure))
                          (int (length roq_t_array) - 1);
              min_p = low;
              minimum = threshold_scan (\<lambda>value. value > min_p) (enumerate 0 pressure) 0
          in Inr (minimum, maximum))"

section \<open>bet.py: area_BET_raw\<close>

text \<open>
  Lines 256 to 260: the two arrays handed to the regression,
  \<^verbatim>\<open>pressure[minimum:maximum]\<close> and
  \<^verbatim>\<open>bet_transform(loading[minimum:maximum], pressure[minimum:maximum])\<close>.
\<close>

definition regression_points :: "real list \<Rightarrow> real list \<Rightarrow> int \<Rightarrow> int \<Rightarrow> error + (real list \<times> real list)" where
  "regression_points loading pressure minimum maximum =
     (case bet_transform (py_slice loading minimum maximum) (py_slice pressure minimum maximum) of
        Inl e \<Rightarrow> Inl e
      | Inr bet_t_array \<Rightarrow> Inr (py_slice pressure minimum maximum, bet_t_array))"

type_synonym bet_tuple = "real \<times> real \<times> real \<times> pynum \<times> real \<times> real \<times> int \<times> int \<times> real"

text \<open>
  The result is the returned value (or the exception) together with the warnings
  channel after the call. The returned tuple is
  \<^verbatim>\<open>(bet_area, c_const, n_monolayer, p_monolayer, slope, intercept, minimum, maximum, corr_coef)\<close>.
\<close>

definition area_BET_raw ::
  "scipy \<Rightarrow> real list \<Rightarrow> real list \<Rightarrow> real \<Rightarrow> (real \<times> real) option \<Rightarrow> string list
     \<Rightarrow> (error + bet_tuple) \<times> string list" where
  "area_BET_raw lib loading pressure cross_section limits channel =
     (if length pressure \<noteq> length loading
      then (Inl (Exception ''The length of the pressure and loading arrays do not match''), channel)
      else case roq_transform loading pressure of
        Inl e \<Rightarrow> (Inl e, channel)
      | Inr roq_t_array \<Rightarrow>
      (case region_selection roq_t_array pressure limits of
        Inl e \<Rightarrow> (Inl e, channel)
      | Inr (minimum, maximum) \<Rightarrow>
      (case regression_points loading pressure minimum maximum of
        Inl e \<Rightarrow> (Inl e, channel)
      | Inr (pressure_region, bet_t_array) \<Rightarrow>
      (case bet_optimisation lib pressure_region bet_t_array of
        Inl e \<Rightarrow> (Inl e, channel)
      | Inr (slope, intercept, corr_coef) \<Rightarrow>
      (case bet_parameters lib slope intercept cross_section of
        (n_monolayer, p_monolayer, c_const, bet_area) \<Rightarrow>
          let channel1 = (if c_const < 0
                          then warnings_warn ''The C constant is negative'' channel
                          else channel);
              channel2 = (if corr_coef < 99 / 100
                          then warnings_warn ''The correlation is not linear'' channel1
                          else channel1);
              result = (bet_area, c_const, n_monolayer, p_monolayer,
                        slope, intercept, minimum, maximum, corr_coef)
          in (case py_index loading minimum of
                Inl e \<Rightarrow> (Inl e, channel2)
              | Inr loading_min \<Rightarrow>
                  if loading_min > n_monolayer
                  then (Inr result,
                        warnings_warn ''The monolayer point is not within the BET region'' channel2)
                  else (case py_index loading maximum of
                          Inl e \<Rightarrow> (Inl e, channel2)
                        | Inr loading_max \<Rightarrow>
                            if loading_max < n_monolayer
                            then (Inr result,
                                  warnings_warn ''The monolayer point is not within the BET region'' channel2)
                            else (Inr result, channel2))))))))"

section \<open>bet.py: area_BET\<close>

text \<open>
  The fields of the isotherm object that \<^verbatim>\<open>area_BET\<close> reads, with the adsorption
  branch of its data. The modes and units are those of class \<^verbatim>\<open>Isotherm\<close>.
\<close>

record isotherm =
  mode_adsorbent :: string
  mode_pressure :: string
  unit_loading :: string
  unit_pressure :: string
  adsorbate :: string
  ads_loading :: "real list"
  ads_pressure :: "real list"

text \<open>
  The collaborators of \<^verbatim>\<open>area_BET\<close> outside the source tree, taken as parameters:
  the numeric rescaling of a pressure into a mode, the read methods
  \<^verbatim>\<open>isotherm.loading(unit, branch)\<close> and \<^verbatim>\<open>isotherm.pressure(branch)\<close>,
  \<^verbatim>\<open>Adsorbate.from_list(name)\<close> and \<^verbatim>\<open>adsorbate.get_prop(name)\<close>.
\<close>

record 'ads collaborators =
  rescale_pressure :: "string \<Rightarrow> real \<Rightarrow> real"
  loading_of :: "isotherm \<Rightarrow> string \<Rightarrow> string \<Rightarrow> real list"
  pressure_of :: "isotherm \<Rightarrow> string \<Rightarrow> real list"
  from_list :: "string \<Rightarrow> error + 'ads"
  get_prop :: "'ads \<Rightarrow> string \<Rightarrow> error + real"

text \<open>
  Modelled from the spec: \<^verbatim>\<open>PointIsotherm.convert_pressure_mode\<close> is not in the
  source tree. The spec (sections 4.6 and 9) describes it as the legacy behaviour that
  "mutated pressure mode in place", "converting a sample's pressure mode in place as a
  side effect": the object's pressure mode becomes the target mode and its stored
  pressures are rescaled.
\<close>

definition convert_pressure_mode :: "(string \<Rightarrow> real \<Rightarrow> real) \<Rightarrow> string \<Rightarrow> isotherm \<Rightarrow> isotherm" where
  "convert_pressure_mode rescale mode isotherm =
     isotherm\<lparr> mode_pressure := mode, ads_pressure := map (rescale mode) (ads_pressure isotherm) \<rparr>"

text \<open>
  \<^verbatim>\<open>area_BET(isotherm, limits=None)\<close>. The isotherm is a mutable object shared with
  the caller, so the result carries the object as it is after the call, next to the
  returned dictionary (or the exception) and the warnings channel.
\<close>

definition area_BET ::
  "'ads collaborators \<Rightarrow> scipy \<Rightarrow> isotherm \<Rightarrow> (real \<times> real) option \<Rightarrow> string list
     \<Rightarrow> (error + (string \<rightharpoonup> pynum)) \<times> isotherm \<times> string list" where
  "area_BET col lib isotherm limits channel =
     (if mode_adsorbent isotherm \<noteq> ''mass''
      then (Inl (Exception
              ''The isotherm must be in per mass of adsorbent.First convert it using implicit functions''),
            isotherm, channel)
      else
        let isotherm1 = (if mode_pressure isotherm \<noteq> ''relative''
                    then convert_pressure_mode (rescale_pressure col) ''relative'' isotherm
                    else isotherm)
        in (case from_list col (adsorbate isotherm1) of
              Inl e \<Rightarrow> (Inl e, isotherm1, channel)
            | Inr ads \<Rightarrow>
            (case get_prop col ads ''cross_sectional_area'' of
              Inl e \<Rightarrow> (Inl e, isotherm1, channel)
            | Inr cross_section \<Rightarrow>
                let loading = loading_of col isotherm1 ''mol'' ''ads'';
                    pressure = pressure_of col isotherm1 ''ads''
                in (case area_BET_raw lib loading pressure cross_section None channel of
                      (Inl e, channel1) \<Rightarrow> (Inl e, isotherm1, channel1)
                    | (Inr (bet_area, c_const, n_monolayer, p_monolayer,
                            slope, intercept, minimum, maximum, corr_coef), channel1) \<Rightarrow>
                        (Inr [''bet_area'' \<mapsto> PyFloat bet_area,
                              ''c_const'' \<mapsto> PyFloat c_const,
                              ''n_monolayer'' \<mapsto> PyFloat n_monolayer,
                              ''p_monolayer'' \<mapsto> p_monolayer,
                              ''bet_slope'' \<mapsto> PyFloat slope,
                              ''bet_intercept'' \<mapsto> PyFloat intercept,
                              ''corr_coef'' \<mapsto> PyFloat corr_coef],
                         isotherm1, channel1)))))"

text \<open>
  Collaborators for the concrete examples: stored columns and one known adsorbate,
  nitrogen with a cross-sectional area of 0.162 square nanometres.
\<close>

definition nitrogen_cross_section :: real where
  "nitrogen_cross_section = 162 / 1000"

definition stored_columns :: "string collaborators" where
  "stored_columns =
     \<lparr> rescale_pressure = (\<lambda>mode p. p / 100000),
       loading_of = (\<lambda>isotherm unit branch. ads_loading isotherm),
       pressure_of = (\<lambda>isotherm branch. ads_pressure isotherm),
       from_list = (\<lambda>name. if name = ''N2'' then Inr name else Inl (Exception ''adsorbate not found'')),
       get_prop = (\<lambda>ads prop. if prop = ''cross_sectional_area'' then Inr nitrogen_cross_section
                               else Inl (Exception ''property not found'')) \<rparr>"

section \<open>models_isotherm: Henry and Virial\<close>

text \<open>
  A model instance owns the dictionary \<^verbatim>\<open>self.params\<close>. A missing key raises
  \<^verbatim>\<open>KeyError\<close>.
\<close>

record isotherm_model =
  params :: "string \<rightharpoonup> real"

definition dict_get :: "('k \<rightharpoonup> 'v) \<Rightarrow> 'k \<Rightarrow> error + 'v" where
  "dict_get d k = (case d k of None \<Rightarrow> Inl KeyError | Some v \<Rightarrow> Inr v)"

text \<open>\<^verbatim>\<open>Henry.loading\<close>: \<^verbatim>\<open>self.params["KH"] * pressure\<close>.\<close>

definition Henry_loading :: "isotherm_model \<Rightarrow> real \<Rightarrow> error + real" where
  "Henry_loading self pressure =
     (case dict_get (params self) ''KH'' of
        Inl e \<Rightarrow> Inl e
      | Inr KH \<Rightarrow> Inr (KH * pressure))"

text \<open>
  \<^verbatim>\<open>Henry.pressure\<close>: \<^verbatim>\<open>loading / self.params["KH"]\<close>. With \<open>KH = 0\<close> the division
  has no real result (Python floats raise \<^verbatim>\<open>ZeroDivisionError\<close>, numpy floats give
  inf or nan): the model stops there.
\<close>

definition Henry_pressure :: "isotherm_model \<Rightarrow> real \<Rightarrow> error + real" where
  "Henry_pressure self loading =
     (case dict_get (params self) ''KH'' of
        Inl e \<Rightarrow> Inl e
      | Inr KH \<Rightarrow> if KH = 0 then Inl ZeroDivisionError else Inr (loading / KH))"

text \<open>\<^verbatim>\<open>Henry.spreading_pressure\<close> and \<^verbatim>\<open>Henry.default_guess\<close>.\<close>

definition Henry_spreading_pressure :: "isotherm_model \<Rightarrow> real \<Rightarrow> error + real" where
  "Henry_spreading_pressure self pressure =
     (case dict_get (params self) ''KH'' of
        Inl e \<Rightarrow> Inl e
      | Inr KH \<Rightarrow> Inr (KH * pressure))"

definition Henry_default_guess :: "real \<Rightarrow> real \<Rightarrow> (string \<rightharpoonup> real)" where
  "Henry_default_guess saturation_loading langmuir_k = [''KH'' \<mapsto> saturation_loading * langmuir_k]"

text \<open>
  \<^verbatim>\<open>Virial.pressure\<close>:
  \<^verbatim>\<open>loading * exp(-log(KH) + A * loading + B * loading**2 + C * loading**3)\<close>.
\<close>

definition Virial_pressure :: "isotherm_model \<Rightarrow> real \<Rightarrow> error + real" where
  "Virial_pressure self loading =
     (case dict_get (params self) ''KH'' of Inl e \<Rightarrow> Inl e | Inr KH \<Rightarrow>
      (case dict_get (params self) ''A'' of Inl e \<Rightarrow> Inl e | Inr A \<Rightarrow>
      (case dict_get (params self) ''B'' of Inl e \<Rightarrow> Inl e | Inr B \<Rightarrow>
      (case dict_get (params self) ''C'' of Inl e \<Rightarrow> Inl e | Inr C \<Rightarrow>
         Inr (loading * exp (- ln KH + A * loading + B * loading ^ 2 + C * loading ^ 3))))))"

text \<open>\<^verbatim>\<open>Virial.spreading_pressure\<close>: \<^verbatim>\<open>raise NotImplementedError\<close>.\<close>

definition Virial_spreading_pressure :: "isotherm_model \<Rightarrow> real \<Rightarrow> error + real" where
  "Virial_spreading_pressure self pressure = Inl NotImplementedError"

text \<open>
  \<^verbatim>\<open>numpy.polyfit(x, y, deg, full=True)\<close> is a library function outside the
  repository, taken as a parameter: it returns the coefficients, highest degree first,
  and the array of residual sums of squares (entries 0 and 1 of \<^verbatim>\<open>full_info\<close>, the
  only ones \<^verbatim>\<open>fit\<close> reads when not verbose).
\<close>

record numpy =
  polyfit :: "real list \<Rightarrow> real list \<Rightarrow> nat \<Rightarrow> error + (real list \<times> real list)"

text \<open>
  \<^verbatim>\<open>Virial.fit(loading, pressure, param_guess, optimization_method)\<close>: the returned
  rmse (an array, as the residuals are) or the exception, and the model object after
  the call. The four parameters are assigned one after the other.
\<close>

definition Virial_fit ::
  "numpy \<Rightarrow> isotherm_model \<Rightarrow> real list \<Rightarrow> real list \<Rightarrow> (string \<rightharpoonup> real) \<Rightarrow> string
     \<Rightarrow> (error + real list) \<times> isotherm_model" where
  "Virial_fit np self loading pressure param_guess optimization_method =
     (case np_elementwise (\<lambda>p n. p / n) pressure loading of
        Inl e \<Rightarrow> (Inl e, self)
      | Inr p_over_n \<Rightarrow>
          let ln_p_over_n = map ln p_over_n
          in (case polyfit np loading ln_p_over_n 3 of
                Inl e \<Rightarrow> (Inl e, self)
              | Inr full_info \<Rightarrow>
                  let virial_constants = fst full_info
                  in (case py_index virial_constants 3 of
                        Inl e \<Rightarrow> (Inl e, self)
                      | Inr c3 \<Rightarrow>
                  let self1 = self\<lparr> params := (params self)(''KH'' \<mapsto> exp (- c3)) \<rparr>
                  in (case py_index virial_constants 2 of
                        Inl e \<Rightarrow> (Inl e, self1)
                      | Inr c2 \<Rightarrow>
                  let self2 = self1\<lparr> params := (params self1)(''A'' \<mapsto> c2) \<rparr>
                  in (case py_index virial_constants 1 of
                        Inl e \<Rightarrow> (Inl e, self2)
                      | Inr c1 \<Rightarrow>
                  let self3 = self2\<lparr> params := (params self2)(''B'' \<mapsto> c1) \<rparr>
                  in (case py_index virial_constants 0 of
                        Inl e \<Rightarrow> (Inl e, self3)
                      | Inr c0 \<Rightarrow>
                  let self4 = self3\<lparr> params := (params self3)(''C'' \<mapsto> c0) \<rparr>;
                      rmse = map (\<lambda>r. sqrt (r / real (length pressure))) (snd full_info)
                  in (Inr rmse, self4)))))))"

text \<open>
  A \<^verbatim>\<open>polyfit\<close> for the concrete example: it knows the data sets whose ordinates are
  all zero, where the least-squares polynomial is zero with residual zero.
\<close>

definition polyfit_zero :: numpy where
  "polyfit_zero =
     \<lparr> polyfit = (\<lambda>x y deg.
         if x \<noteq> [] \<and> length x = length y \<and> y = replicate (length x) 0
         then Inr (replicate (Suc deg) 0, [0])
         else Inl (CalculationError ''data set not covered'')) \<rparr>"

section \<open>The validator as the specification words it\<close>

text \<open>
  Section 4.5 of the specification: \<^verbatim>\<open>validate(c_const, corr_coef, loading, minimum,\<close>
  \<^verbatim>\<open>maximum, n_monolayer) -> list of warnings\<close>, three checks evaluated independently
  and reported in order. It is compared below with what \<^verbatim>\<open>area_BET_raw\<close> emits.
\<close>

definition spec_validate :: "real \<Rightarrow> real \<Rightarrow> real list \<Rightarrow> int \<Rightarrow> int \<Rightarrow> real \<Rightarrow> string list" where
  "spec_validate c_const corr_coef loading minimum maximum n_monolayer =
     (if c_const < 0 then [''The C constant is negative''] else [])
     @ (if corr_coef < 99 / 100 then [''The correlation is not linear''] else [])
     @ (if loading ! nat minimum > n_monolayer \<or> loading ! nat maximum < n_monolayer
        then [''The monolayer point is not within the BET region''] else [])"

section \<open>Example data\<close>

text \<open>
  Four points whose first two lie on the BET line with slope 0.9 and intercept 0.1
  (so \<open>C = 10\<close> and a monolayer loading of 1); the Roquerol transform rises over the
  first three points and falls at the fourth.
\<close>

definition example_loading :: "real list" where
  "example_loading = [100/171, 25/28, 2, 1]"

definition example_pressure :: "real list" where
  "example_pressure = [1/10, 1/5, 3/10, 2/5]"

definition example_isotherm :: isotherm where
  "example_isotherm =
     \<lparr> mode_adsorbent = ''mass'', mode_pressure = ''absolute'',
       unit_loading = ''mol'', unit_pressure = ''Pa'', adsorbate = ''N2'',
       ads_loading = [100/171, 25/28, 2, 1],
       ads_pressure = [10000, 20000, 30000, 40000] \<rparr>"

section \<open>Supporting lemmas\<close>

subsection \<open>The steps of area_BET_raw\<close>

lemma area_BET_raw_length_mismatch:
  "length pressure \<noteq> length loading \<Longrightarrow>
     area_BET_raw lib loading pressure cross_section limits channel =
       (Inl (Exception ''The length of the pressure and loading arrays do not match''), channel)"
  by (simp add: area_BET_raw_def)

lemma area_BET_raw_steps:
  assumes len: "length pressure = length loading"
    and roq: "roq_transform loading pressure = Inr roq_t_array"
    and sel: "region_selection roq_t_array pressure limits = Inr (minimum, maximum)"
    and pts: "regression_points loading pressure minimum maximum = Inr (pressure_region, bet_t_array)"
    and opt: "bet_optimisation lib pressure_region bet_t_array = Inr (slope, intercept, corr_coef)"
    and par: "bet_parameters lib slope intercept cross_section = (n_monolayer, p_monolayer, c_const, bet_area)"
    and lmin: "py_index loading minimum = Inr loading_min"
    and lmax: "py_index loading maximum = Inr loading_max"
  shows "area_BET_raw lib loading pressure cross_section limits channel =
           (Inr (bet_area, c_const, n_monolayer, p_monolayer, slope, intercept, minimum, maximum, corr_coef),
            channel
            @ (if c_const < 0 then [''The C constant is negative''] else [])
            @ (if corr_coef < 99 / 100 then [''The correlation is not linear''] else [])
            @ (if loading_min > n_monolayer \<or> loading_max < n_monolayer
               then [''The monolayer point is not within the BET region''] else []))"
  using assms by (simp add: area_BET_raw_def warnings_warn_def Let_def)

subsection \<open>The selected indices are in range\<close>

lemma threshold_scan_range:
  "threshold_scan cond items d = d \<or> threshold_scan cond items d \<in> int ` fst ` set items"
  by (induction cond items d rule: threshold_scan.induct) (auto simp add: image_iff)

lemma roq_scan_range:
  "roq_scan roq items d = Inr m \<Longrightarrow> m = d \<or> m \<in> int ` fst ` set items"
  by (induction roq items d rule: roq_scan.induct) (auto simp add: image_iff split: sum.splits if_splits)

lemma fst_set_enumerate: "fst ` set (enumerate 0 xs) = {0..<length xs}"
  unfolding set_map [symmetric] map_fst_enumerate by simp

lemma region_selection_in_range:
  assumes len: "length roq = length pressure" and ne: "pressure \<noteq> []"
    and sel: "region_selection roq pressure limits = Inr (mn, mx)"
  shows "0 \<le> mn \<and> mn < int (length pressure) \<and> 0 \<le> mx \<and> mx < int (length pressure)"
proof -
  have pos: "0 < length pressure" using ne by simp
  have scan_min: "0 \<le> threshold_scan cond (enumerate 0 pressure) 0
      \<and> threshold_scan cond (enumerate 0 pressure) 0 < int (length pressure)" for cond
    using threshold_scan_range [of cond "enumerate 0 pressure" 0] pos
    by (auto simp add: fst_set_enumerate)
  have scan_max: "0 \<le> threshold_scan cond (rev (enumerate 0 pressure)) (int (length roq) - 1)
      \<and> threshold_scan cond (rev (enumerate 0 pressure)) (int (length roq) - 1) < int (length pressure)" for cond
    using threshold_scan_range [of cond "rev (enumerate 0 pressure)" "int (length roq) - 1"] pos len
    by (auto simp add: fst_set_enumerate)
  show ?thesis
  proof (cases limits)
    case None
    from sel None have
      scan: "roq_scan roq (enumerate 0 roq) (int (length roq) - 1) = Inr mx"
      and mn: "\<exists>cond. mn = threshold_scan cond (enumerate 0 pressure) 0"
      by (auto simp add: region_selection_def Let_def split: sum.splits)
    from roq_scan_range [OF scan] have "0 \<le> mx \<and> mx < int (length pressure)"
      using pos len by (auto simp add: fst_set_enumerate)
    then show ?thesis using scan_min mn by auto
  next
    case (Some lim)
    obtain low high where lim: "lim = (low, high)" by (cases lim)
    from sel Some lim have
      "mx = threshold_scan (\<lambda>value. value < high) (rev (enumerate 0 pressure)) (int (length roq) - 1)"
      and "mn = threshold_scan (\<lambda>value. value > low) (enumerate 0 pressure) 0"
      by (simp_all add: region_selection_def Let_def)
    then show ?thesis using scan_min scan_max by simp
  qed
qed

subsection \<open>The forward scan over an array that never decreases\<close>

lemma roq_scan_no_decrease:
  assumes "ys \<noteq> []" and "k + length ys = length roq"
    and "\<forall>j. j + 1 < length roq \<longrightarrow> roq ! j \<le> roq ! (j + 1)"
    and "ys = drop k roq"
  shows "roq_scan roq (enumerate k ys) maximum = Inl IndexError"
  using assms
proof (induction ys arbitrary: k)
  case Nil
  then show ?case by simp
next
  case (Cons y ys)
  have k: "k < length roq" using Cons.prems(2) by simp
  have y: "y = roq ! k" and ys: "ys = drop (Suc k) roq"
    using Cons.prems(4) k by (simp_all add: Cons_nth_drop_Suc [symmetric])
  show ?case
  proof (cases "ys = []")
    case True
    then have "Suc k = length roq" using Cons.prems(2) by simp
    then have "py_index roq (int k + 1) = Inl IndexError"
      by (simp add: py_index_def)
    with True show ?thesis by simp
  next
    case False
    then have more: "k + 1 < length roq" using Cons.prems(2) by (cases ys) simp_all
    then have idx: "py_index roq (int k + 1) = Inr (roq ! (k + 1))"
      by (simp add: py_index_def nat_add_distrib)
    have step: "\<not> roq ! k > roq ! (k + 1)"
      using Cons.prems(3) more by (simp add: not_less)
    have "roq_scan roq (enumerate (Suc k) ys) maximum = Inl IndexError"
      using False Cons.prems(2) Cons.prems(3) ys by (intro Cons.IH) simp_all
    then show ?thesis using y step idx by simp
  qed
qed

lemma region_selection_no_decrease:
  assumes "roq \<noteq> []" and "\<forall>j. j + 1 < length roq \<longrightarrow> roq ! j \<le> roq ! (j + 1)"
  shows "region_selection roq pressure None = Inl IndexError"
proof -
  have "roq_scan roq (enumerate 0 roq) (int (length roq) - 1) = Inl IndexError"
    using assms by (intro roq_scan_no_decrease) simp_all
  then show ?thesis by (simp add: region_selection_def)
qed

subsection \<open>A slice stops before its upper bound\<close>

lemma py_slice_excludes_upper:
  assumes "0 \<le> minimum" and "minimum \<le> maximum" and "maximum < int (length xs)"
  shows "py_slice xs minimum maximum = map (\<lambda>k. xs ! k) [nat minimum ..< nat maximum]"
proof -
  have b: "slice_bound (length xs) minimum = nat minimum" "slice_bound (length xs) maximum = nat maximum"
    using assms by (auto simp add: slice_bound_def)
  have le: "nat minimum \<le> nat maximum" "nat maximum < length xs" using assms by simp_all
  show ?thesis
    unfolding py_slice_def b
  proof (rule nth_equalityI)
    show "length (take (nat maximum - nat minimum) (drop (nat minimum) xs))
        = length (map ((!) xs) [nat minimum..<nat maximum])"
      using le by simp
  next
    fix i
    assume "i < length (take (nat maximum - nat minimum) (drop (nat minimum) xs))"
    then have "i < nat maximum - nat minimum" by simp
    then show "take (nat maximum - nat minimum) (drop (nat minimum) xs) ! i
        = map ((!) xs) [nat minimum..<nat maximum] ! i"
      using le by simp
  qed
qed

subsection \<open>area_BET before it reaches area_BET_raw\<close>

lemma area_BET_wrong_mode:
  "mode_adsorbent isotherm \<noteq> ''mass'' \<Longrightarrow>
     area_BET col lib isotherm limits channel =
       (Inl (Exception
          ''The isotherm must be in per mass of adsorbent.First convert it using implicit functions''),
        isotherm, channel)"
  by (simp add: area_BET_def)

lemma area_BET_length_mismatch:
  assumes mass: "mode_adsorbent isotherm = ''mass''"
    and after: "isotherm1 = (if mode_pressure isotherm \<noteq> ''relative''
                      then convert_pressure_mode (rescale_pressure col) ''relative'' isotherm
                      else isotherm)"
    and len: "length (pressure_of col isotherm1 ''ads'') \<noteq> length (loading_of col isotherm1 ''mol'' ''ads'')"
  shows "area_BET col lib isotherm limits channel =
      (case from_list col (adsorbate isotherm1) of
         Inl e \<Rightarrow> (Inl e, isotherm1, channel)
       | Inr ads \<Rightarrow>
           (case get_prop col ads ''cross_sectional_area'' of
              Inl e \<Rightarrow> (Inl e, isotherm1, channel)
            | Inr cross_section \<Rightarrow>
                (Inl (Exception ''The length of the pressure and loading arrays do not match''),
                 isotherm1, channel)))"
proof -
  have raw: "area_BET_raw lib (loading_of col isotherm1 ''mol'' ''ads'') (pressure_of col isotherm1 ''ads'')
               cross_section None channel =
             (Inl (Exception ''The length of the pressure and loading arrays do not match''), channel)"
    for cross_section
    using len by (rule area_BET_raw_length_mismatch)
  show ?thesis
    unfolding area_BET_def Let_def after [symmetric] using mass
    by (simp add: raw cong: sum.case_cong)
qed

lemma area_BET_ignores_limits:
  "area_BET col lib isotherm limits channel = area_BET col lib isotherm None channel"
  by (simp add: area_BET_def)

subsection \<open>The example, step by step\<close>

lemma example_roq:
  "roq_transform example_loading example_pressure = Inr [10/19, 5/7, 7/5, 3/5]"
  by (simp add: roq_transform_def np_elementwise_def example_loading_def example_pressure_def)

lemma example_region_auto:
  "region_selection [10/19, 5/7, 7/5, 3/5] example_pressure None = Inr (0, 2)"
  by (simp add: region_selection_def py_index_def example_pressure_def)

lemma example_region_manual:
  "region_selection [10/19, 5/7, 7/5, 3/5] example_pressure (Some (3/20, 9/20)) = Inr (1, 3)"
  by (simp add: region_selection_def py_index_def example_pressure_def)

lemma example_points:
  "regression_points example_loading example_pressure 0 2 = Inr ([1/10, 1/5], [19/100, 7/25])"
  by (simp add: regression_points_def bet_transform_def roq_transform_def np_elementwise_def
      py_slice_def slice_bound_def example_loading_def example_pressure_def)

lemma example_points_manual:
  "regression_points example_loading example_pressure 1 3 = Inr ([1/5, 3/10], [7/25, 3/14])"
  by (simp add: regression_points_def bet_transform_def roq_transform_def np_elementwise_def
      py_slice_def slice_bound_def example_loading_def example_pressure_def)

lemma example_least_squares:
  "least_squares [1/10, 1/5] [19/100, 7/25] = Inr (9/10, 1/10, 1)"
proof -
  have s: "sqrt (81 / 16000000) = 9 / 4000"
    by (rule real_sqrt_unique) (simp_all add: power2_eq_square)
  show ?thesis
    by (simp add: least_squares_def covariance_def mean_def s Let_def)
qed

lemma manual_least_squares:
  "least_squares [1/5, 3/10] [7/25, 3/14] = Inr (- 23/35, 72/175, - 1)"
proof -
  have s: "sqrt (529 / 196000000) = 23 / 14000"
    by (rule real_sqrt_unique) (simp_all add: power2_eq_square)
  show ?thesis
    by (simp add: least_squares_def covariance_def mean_def s Let_def)
qed

lemma example_optimisation:
  "bet_optimisation scipy_lsq [1/10, 1/5] [19/100, 7/25] = Inr (9/10, 1/10, 1)"
  by (simp add: bet_optimisation_def scipy_lsq_def example_least_squares)

lemma example_parameters:
  "bet_parameters scipy_lsq (9/10) (1/10) nitrogen_cross_section =
     (1, PyFloat (1 / (sqrt 10 + 1)), 10, 12194835039 / 125000)"
  by (simp add: bet_parameters_def scipy_sqrt_def scipy_lsq_def nitrogen_cross_section_def Let_def)

lemma example_area_BET_raw:
  "area_BET_raw scipy_lsq example_loading example_pressure nitrogen_cross_section None channel =
     (Inr (12194835039 / 125000, 10, 1, PyFloat (1 / (sqrt 10 + 1)), 9/10, 1/10, 0, 2, 1), channel)"
proof -
  have len: "length example_pressure = length example_loading"
    by (simp add: example_loading_def example_pressure_def)
  have idx: "py_index example_loading 0 = Inr (100/171)" "py_index example_loading 2 = Inr 2"
    by (simp_all add: py_index_def example_loading_def)
  from area_BET_raw_steps [OF len example_roq example_region_auto example_points
      example_optimisation example_parameters idx]
  show ?thesis by simp
qed

lemma example_area_BET:
  "area_BET stored_columns scipy_lsq example_isotherm limits [] =
     (Inr [''bet_area'' \<mapsto> PyFloat (12194835039 / 125000),
           ''c_const'' \<mapsto> PyFloat 10,
           ''n_monolayer'' \<mapsto> PyFloat 1,
           ''p_monolayer'' \<mapsto> PyFloat (1 / (sqrt 10 + 1)),
           ''bet_slope'' \<mapsto> PyFloat (9/10),
           ''bet_intercept'' \<mapsto> PyFloat (1/10),
           ''corr_coef'' \<mapsto> PyFloat 1],
      example_isotherm\<lparr> mode_pressure := ''relative'', ads_pressure := example_pressure \<rparr>, [])"
proof -
  have modes: "mode_adsorbent example_isotherm = ''mass''" "mode_pressure example_isotherm \<noteq> ''relative''"
    by (simp_all add: example_isotherm_def)
  have conv: "convert_pressure_mode (rescale_pressure stored_columns) ''relative'' example_isotherm
      = example_isotherm\<lparr> mode_pressure := ''relative'', ads_pressure := example_pressure \<rparr>"
    by (simp add: convert_pressure_mode_def stored_columns_def example_isotherm_def example_pressure_def)
  have look: "from_list stored_columns (adsorbate example_isotherm) = Inr ''N2''"
    "get_prop stored_columns ''N2'' ''cross_sectional_area'' = Inr nitrogen_cross_section"
    by (simp_all add: stored_columns_def example_isotherm_def)
  have cols:
    "loading_of stored_columns
       (example_isotherm\<lparr> mode_pressure := ''relative'', ads_pressure := example_pressure \<rparr>)
       ''mol'' ''ads'' = example_loading"
    "pressure_of stored_columns
       (example_isotherm\<lparr> mode_pressure := ''relative'', ads_pressure := example_pressure \<rparr>)
       ''ads'' = example_pressure"
    by (simp_all add: stored_columns_def example_isotherm_def example_loading_def)
  show ?thesis
    by (simp add: area_BET_def modes conv look cols example_area_BET_raw Let_def)
qed

lemma three_point_run:
  "area_BET_raw scipy_lsq [100/171, 25/28, l] [1/10, 1/5, 3/10] nitrogen_cross_section
       (Some (1/20, 7/20)) channel =
     (Inr (12194835039 / 125000, 10, 1, PyFloat (1 / (sqrt 10 + 1)), 9/10, 1/10, 0, 2, 1),
      channel @ (if l < 1 then [''The monolayer point is not within the BET region''] else []))"
proof -
  have roq: "roq_transform [100/171, 25/28, l] [1/10, 1/5, 3/10] = Inr [10/19, 5/7, l * (7/10)]"
    by (simp add: roq_transform_def np_elementwise_def)
  have sel: "region_selection [10/19, 5/7, l * (7/10)] [1/10, 1/5, 3/10] (Some (1/20, 7/20)) = Inr (0, 2)"
    by (simp add: region_selection_def)
  have pts: "regression_points [100/171, 25/28, l] [1/10, 1/5, 3/10] 0 2 = Inr ([1/10, 1/5], [19/100, 7/25])"
    by (simp add: regression_points_def bet_transform_def roq_transform_def np_elementwise_def
      py_slice_def slice_bound_def)
  have idx: "py_index [100/171, 25/28, l] 0 = Inr (100/171)" "py_index [100/171, 25/28, l] 2 = Inr l"
    by (simp_all add: py_index_def)
  have "length [1/10, 1/5, 3/10 :: real] = length [100/171, 25/28, l]" by simp
  from area_BET_raw_steps [OF this roq sel pts example_optimisation example_parameters idx]
  show ?thesis by simp
qed

subsection \<open>The fitted Virial parameters in the pressure function\<close>

lemma Virial_pressure_fitted:
  "Virial_pressure (self\<lparr> params := (params self)(''KH'' \<mapsto> exp (- c_constant), ''A'' \<mapsto> c_linear,
                                           ''B'' \<mapsto> c_square, ''C'' \<mapsto> c_cube) \<rparr>) n
     = Inr (n * exp (c_constant + c_linear * n + c_square * n ^ 2 + c_cube * n ^ 3))"
  by (simp add: Virial_pressure_def dict_get_def)

section \<open>The claims\<close>

subsection \<open>C1: the caller's isotherm after area_BET\<close>

text \<open>
  C1 states that \<^verbatim>\<open>area_BET\<close> never mutates the caller's isotherm, in particular
  not its pressure mode. The code calls \<^verbatim>\<open>isotherm.convert_pressure_mode('relative')\<close>
  on the caller's object. What holds instead: the isotherm after the call is the
  caller's isotherm unchanged when the adsorbent mode is not "mass" or the pressure
  mode is already "relative", and otherwise the isotherm converted in place to
  relative pressure, whatever happens later in the call.
\<close>

theorem area_BET_isotherm_after_call:
  "fst (snd (area_BET col lib isotherm limits channel)) =
     (if mode_adsorbent isotherm = ''mass'' \<and> mode_pressure isotherm \<noteq> ''relative''
      then convert_pressure_mode (rescale_pressure col) ''relative'' isotherm
      else isotherm)"
  by (simp add: area_BET_def Let_def case_prod_beta split: sum.split)

theorem area_BET_isotherm_after_call_witness:
  "fst (snd (area_BET stored_columns scipy_lsq example_isotherm None [])) =
     example_isotherm\<lparr> mode_pressure := ''relative'', ads_pressure := example_pressure \<rparr>
   \<and> fst (snd (area_BET stored_columns scipy_lsq (example_isotherm\<lparr> mode_pressure := ''relative'' \<rparr>) None []))
       = example_isotherm\<lparr> mode_pressure := ''relative'' \<rparr>"
  using area_BET_isotherm_after_call [of stored_columns scipy_lsq example_isotherm None "[]"]
    area_BET_isotherm_after_call [of stored_columns scipy_lsq "example_isotherm\<lparr> mode_pressure := ''relative'' \<rparr>" None "[]"]
  by (simp add: convert_pressure_mode_def stored_columns_def example_isotherm_def example_pressure_def)

text \<open>
  The claim as stated fails on the example isotherm, which is in absolute pressure:
  after the call its pressure mode is "relative".
\<close>

theorem area_BET_mutates_isotherm:
  "mode_pressure (fst (snd (area_BET stored_columns scipy_lsq example_isotherm None []))) = ''relative''
   \<and> mode_pressure example_isotherm = ''absolute''
   \<and> fst (snd (area_BET stored_columns scipy_lsq example_isotherm None [])) \<noteq> example_isotherm"
proof -
  have "mode_pressure (fst (snd (area_BET stored_columns scipy_lsq example_isotherm None []))) = ''relative''"
    by (simp add: example_area_BET)
  moreover have "mode_pressure example_isotherm = ''absolute''"
    by (simp add: example_isotherm_def)
  ultimately show ?thesis by auto
qed

subsection \<open>C2: manual limits passed to area_BET\<close>

text \<open>
  C2 states that manual limits given to \<^verbatim>\<open>area_BET\<close> select the fitted region. The
  code accepts \<^verbatim>\<open>limits\<close> and calls \<^verbatim>\<open>area_BET_raw\<close> without it. On the example,
  \<^verbatim>\<open>area_BET\<close> with limits (0.15, 0.45) returns what it returns without limits, with
  the slope 0.9 of the automatic region (0, 2), although \<^verbatim>\<open>area_BET_raw\<close> with these
  limits selects the region (1, 3), whose points have the least-squares slope -23/35.
\<close>

theorem area_BET_ignores_limits_example:
  "area_BET stored_columns scipy_lsq example_isotherm (Some (3/20, 9/20)) []
     = area_BET stored_columns scipy_lsq example_isotherm None []
   \<and> (case fst (area_BET stored_columns scipy_lsq example_isotherm (Some (3/20, 9/20)) []) of
         Inl e \<Rightarrow> None | Inr result_dict \<Rightarrow> result_dict ''bet_slope'') = Some (PyFloat (9/10))
   \<and> region_selection [10/19, 5/7, 7/5, 3/5] example_pressure None = Inr (0, 2)
   \<and> region_selection [10/19, 5/7, 7/5, 3/5] example_pressure (Some (3/20, 9/20)) = Inr (1, 3)
   \<and> regression_points example_loading example_pressure 1 3 = Inr ([1/5, 3/10], [7/25, 3/14])
   \<and> linregress scipy_lsq [1/5, 3/10] [7/25, 3/14] = Inr (- 23/35, 72/175, - 1)"
proof -
  have "linregress scipy_lsq [1/5, 3/10] [7/25, 3/14] = Inr (- 23/35, 72/175, - 1)"
    by (simp add: scipy_lsq_def manual_least_squares)
  then show ?thesis
    by (simp add: example_area_BET example_region_auto example_region_manual example_points_manual)
qed

subsection \<open>C3: automatic selection when the Roquerol array never decreases\<close>

text \<open>
  C3 states that in automatic selection a non-empty Roquerol array that never decreases
  gives the last index as maximum without reading past the end. The forward scan reads
  \<^verbatim>\<open>roq_t_array[index + 1]\<close> at every index, the last one included: for loadings
  1, 2, 3 at pressures 0.1, 0.2, 0.3 the Roquerol array 0.9, 1.6, 2.1 never decreases and
  the call raises \<^verbatim>\<open>IndexError\<close> (as it does for every such array, by
  \<open>region_selection_no_decrease\<close>).
\<close>

theorem automatic_selection_index_error:
  "roq_transform [1, 2, 3] [1/10, 1/5, 3/10] = Inr [9/10, 8/5, 21/10]
   \<and> region_selection [9/10, 8/5, 21/10] [1/10, 1/5, 3/10] None = Inl IndexError
   \<and> area_BET_raw scipy_lsq [1, 2, 3] [1/10, 1/5, 3/10] nitrogen_cross_section None [] = (Inl IndexError, [])"
proof -
  have roq: "roq_transform [1, 2, 3] [1/10, 1/5, 3/10] = Inr [9/10, 8/5, 21/10]"
    by (simp add: roq_transform_def np_elementwise_def)
  have sel: "region_selection [9/10, 8/5, 21/10] [1/10, 1/5, 3/10] None = Inl IndexError"
    by (rule region_selection_no_decrease) (simp_all add: nth_Cons')
  have "area_BET_raw scipy_lsq [1, 2, 3] [1/10, 1/5, 3/10] nitrogen_cross_section None [] = (Inl IndexError, [])"
    by (simp add: area_BET_raw_def roq sel)
  with roq sel show ?thesis by simp
qed

subsection \<open>C4: the points handed to the regression\<close>

text \<open>
  C4 states that the regression runs over every index from minimum through maximum,
  the point at maximum included. The code slices \<^verbatim>\<open>[minimum:maximum]\<close>, which stops
  before maximum (\<open>py_slice_excludes_upper\<close>). On the example the selected region is
  (0, 2) and the regression receives the two points at indices 0 and 1: the point at
  index 2, of pressure 0.3, is not among them, and the returned slope and intercept are
  those of the two-point line.
\<close>

theorem regression_excludes_maximum_example:
  "region_selection [10/19, 5/7, 7/5, 3/5] example_pressure None = Inr (0, 2)
   \<and> regression_points example_loading example_pressure 0 2 = Inr ([1/10, 1/5], [19/100, 7/25])
   \<and> py_index example_pressure 2 = Inr (3/10)
   \<and> area_BET_raw scipy_lsq example_loading example_pressure nitrogen_cross_section None [] =
     (Inr (12194835039 / 125000, 10, 1, PyFloat (1 / (sqrt 10 + 1)), 9/10, 1/10, 0, 2, 1), [])"
  by (simp add: example_region_auto example_points example_area_BET_raw)
     (simp add: py_index_def example_pressure_def)

subsection \<open>C5: the consistency checks\<close>

text \<open>
  C5 states that the three consistency checks are non-fatal and that their warnings are
  collected and returned alongside the result. The first part holds, the second does
  not: the warnings go to the warnings channel and the returned tuple has no place for
  them. What holds instead: for every non-empty input on which region selection and the
  regression succeed, \<^verbatim>\<open>area_BET_raw\<close> returns the complete tuple, and the warnings
  it adds to the warnings channel are exactly those of the specification's validator,
  in its order.
\<close>

theorem consistency_checks_non_fatal:
  assumes len: "length pressure = length loading" and ne: "loading \<noteq> []"
    and roq: "roq_transform loading pressure = Inr roq_t_array"
    and sel: "region_selection roq_t_array pressure limits = Inr (minimum, maximum)"
    and pts: "regression_points loading pressure minimum maximum = Inr (pressure_region, bet_t_array)"
    and opt: "bet_optimisation lib pressure_region bet_t_array = Inr (slope, intercept, corr_coef)"
    and par: "bet_parameters lib slope intercept cross_section = (n_monolayer, p_monolayer, c_const, bet_area)"
  shows "area_BET_raw lib loading pressure cross_section limits channel =
           (Inr (bet_area, c_const, n_monolayer, p_monolayer, slope, intercept, minimum, maximum, corr_coef),
            channel @ spec_validate c_const corr_coef loading minimum maximum n_monolayer)"
proof -
  have "length roq_t_array = length pressure"
    using roq len by (auto simp add: roq_transform_def np_elementwise_def)
  moreover have "pressure \<noteq> []" using len ne by auto
  ultimately have rng: "0 \<le> minimum \<and> minimum < int (length loading)
      \<and> 0 \<le> maximum \<and> maximum < int (length loading)"
    using region_selection_in_range [OF _ _ sel] len by simp
  then have idx: "py_index loading minimum = Inr (loading ! nat minimum)"
      "py_index loading maximum = Inr (loading ! nat maximum)"
    by (simp_all add: py_index_def)
  from area_BET_raw_steps [OF len roq sel pts opt par idx]
  show ?thesis by (simp add: spec_validate_def)
qed

theorem consistency_checks_non_fatal_witness:
  "length example_pressure = length example_loading \<and> example_loading \<noteq> []
   \<and> roq_transform example_loading example_pressure = Inr [10/19, 5/7, 7/5, 3/5]
   \<and> region_selection [10/19, 5/7, 7/5, 3/5] example_pressure None = Inr (0, 2)
   \<and> regression_points example_loading example_pressure 0 2 = Inr ([1/10, 1/5], [19/100, 7/25])
   \<and> bet_optimisation scipy_lsq [1/10, 1/5] [19/100, 7/25] = Inr (9/10, 1/10, 1)
   \<and> bet_parameters scipy_lsq (9/10) (1/10) nitrogen_cross_section =
       (1, PyFloat (1 / (sqrt 10 + 1)), 10, 12194835039 / 125000)
   \<and> area_BET_raw scipy_lsq example_loading example_pressure nitrogen_cross_section None [''earlier''] =
       (Inr (12194835039 / 125000, 10, 1, PyFloat (1 / (sqrt 10 + 1)), 9/10, 1/10, 0, 2, 1),
        [''earlier''] @ spec_validate 10 1 example_loading 0 2 1)
   \<and> spec_validate 10 1 example_loading 0 2 1 = []"
proof -
  have len: "length example_pressure = length example_loading" and ne: "example_loading \<noteq> []"
    by (simp_all add: example_loading_def example_pressure_def)
  have quiet: "spec_validate 10 1 example_loading 0 2 1 = []"
    by (simp add: spec_validate_def example_loading_def)
  from consistency_checks_non_fatal [OF len ne example_roq example_region_auto example_points
      example_optimisation example_parameters, of "[''earlier'']"]
  show ?thesis
    using len ne example_roq example_region_auto example_points example_optimisation
      example_parameters quiet
    by simp
qed

text \<open>
  The claim as stated fails: two inputs that differ only in the loading at the maximum
  index return the same tuple, and only the second run emits a warning. The returned
  value does not carry the warnings.
\<close>

theorem warnings_not_in_returned_value:
  "area_BET_raw scipy_lsq [100/171, 25/28, 2] [1/10, 1/5, 3/10] nitrogen_cross_section (Some (1/20, 7/20)) [] =
     (Inr (12194835039 / 125000, 10, 1, PyFloat (1 / (sqrt 10 + 1)), 9/10, 1/10, 0, 2, 1), [])
   \<and> area_BET_raw scipy_lsq [100/171, 25/28, 1/2] [1/10, 1/5, 3/10] nitrogen_cross_section (Some (1/20, 7/20)) [] =
     (Inr (12194835039 / 125000, 10, 1, PyFloat (1 / (sqrt 10 + 1)), 9/10, 1/10, 0, 2, 1),
      [''The monolayer point is not within the BET region''])"
  by (simp add: three_point_run)

subsection \<open>C6: precondition violations\<close>

text \<open>
  C6 states that \<^verbatim>\<open>area_BET\<close> fails with a descriptive, typed error before any
  region selection or numeric computation whenever the adsorbent mode is not "mass" or
  the pressure and loading arrays differ in length. That holds for the adsorbent mode,
  the first statement of \<^verbatim>\<open>area_BET\<close>, and for the length check inside
  \<^verbatim>\<open>area_BET_raw\<close>, its first statement. It does not hold for \<^verbatim>\<open>area_BET\<close> on
  arrays of different lengths: the length check is reached only after the pressure-mode
  conversion, the adsorbate lookup and the reading of the columns. What holds instead:
  a wrong adsorbent mode raises \<^verbatim>\<open>Exception\<close> with its message at once, the
  isotherm and the warnings channel untouched; \<^verbatim>\<open>area_BET_raw\<close> on arrays of
  different lengths raises \<^verbatim>\<open>Exception\<close> with its message at once; and
  \<^verbatim>\<open>area_BET\<close> on a per-mass sample whose columns differ in length first converts
  the sample to relative pressure if it is not, then ends with the error of the
  adsorbate lookup if the lookup fails and with the length exception otherwise, in
  either case without region selection, regression or warning.
\<close>

theorem precondition_checks_in_call_order:
  "(mode_adsorbent isotherm \<noteq> ''mass'' \<longrightarrow>
      area_BET col lib isotherm limits channel =
        (Inl (Exception
           ''The isotherm must be in per mass of adsorbent.First convert it using implicit functions''),
         isotherm, channel))
   \<and> (length pressure \<noteq> length loading \<longrightarrow>
      area_BET_raw lib loading pressure cross_section limits channel =
        (Inl (Exception ''The length of the pressure and loading arrays do not match''), channel))
   \<and> (mode_adsorbent sample = ''mass''
        \<and> sample1 = (if mode_pressure sample \<noteq> ''relative''
                      then convert_pressure_mode (rescale_pressure col) ''relative'' sample
                      else sample)
        \<and> length (pressure_of col sample1 ''ads'') \<noteq> length (loading_of col sample1 ''mol'' ''ads'') \<longrightarrow>
      area_BET col lib sample limits channel =
        (case from_list col (adsorbate sample1) of
           Inl e \<Rightarrow> (Inl e, sample1, channel)
         | Inr ads \<Rightarrow>
             (case get_prop col ads ''cross_sectional_area'' of
                Inl e \<Rightarrow> (Inl e, sample1, channel)
              | Inr area \<Rightarrow>
                  (Inl (Exception ''The length of the pressure and loading arrays do not match''),
                   sample1, channel))))"
proof (intro conjI impI)
  assume "mode_adsorbent isotherm \<noteq> ''mass''"
  then show "area_BET col lib isotherm limits channel =
        (Inl (Exception
           ''The isotherm must be in per mass of adsorbent.First convert it using implicit functions''),
         isotherm, channel)"
    by (rule area_BET_wrong_mode)
next
  assume "length pressure \<noteq> length loading"
  then show "area_BET_raw lib loading pressure cross_section limits channel =
        (Inl (Exception ''The length of the pressure and loading arrays do not match''), channel)"
    by (rule area_BET_raw_length_mismatch)
next
  assume "mode_adsorbent sample = ''mass''
        \<and> sample1 = (if mode_pressure sample \<noteq> ''relative''
                      then convert_pressure_mode (rescale_pressure col) ''relative'' sample
                      else sample)
        \<and> length (pressure_of col sample1 ''ads'') \<noteq> length (loading_of col sample1 ''mol'' ''ads'')"
  then show "area_BET col lib sample limits channel =
        (case from_list col (adsorbate sample1) of
           Inl e \<Rightarrow> (Inl e, sample1, channel)
         | Inr ads \<Rightarrow>
             (case get_prop col ads ''cross_sectional_area'' of
                Inl e \<Rightarrow> (Inl e, sample1, channel)
              | Inr area \<Rightarrow>
                  (Inl (Exception ''The length of the pressure and loading arrays do not match''),
                   sample1, channel)))"
    by (elim conjE) (rule area_BET_length_mismatch)
qed

text \<open>
  The theorem at a sample in absolute pressure with four pressures and one loading,
  together with a sample in per-volume mode and two arrays of lengths two and one.
\<close>

theorem precondition_checks_in_call_order_witness:
  "mode_adsorbent (example_isotherm\<lparr> mode_adsorbent := ''volume'' \<rparr>) \<noteq> ''mass''
   \<and> length [1/10, 1/5 :: real] \<noteq> length [1 :: real]
   \<and> mode_adsorbent (example_isotherm\<lparr> ads_loading := [1] \<rparr>) = ''mass''
   \<and> mode_pressure (example_isotherm\<lparr> ads_loading := [1] \<rparr>) \<noteq> ''relative''
   \<and> length (pressure_of stored_columns
                (example_isotherm\<lparr> mode_pressure := ''relative'', ads_loading := [1],
                                   ads_pressure := example_pressure \<rparr>) ''ads'')
       \<noteq> length (loading_of stored_columns
                (example_isotherm\<lparr> mode_pressure := ''relative'', ads_loading := [1],
                                   ads_pressure := example_pressure \<rparr>) ''mol'' ''ads'')
   \<and> area_BET stored_columns scipy_lsq (example_isotherm\<lparr> mode_adsorbent := ''volume'' \<rparr>) None [] =
        (Inl (Exception
           ''The isotherm must be in per mass of adsorbent.First convert it using implicit functions''),
         example_isotherm\<lparr> mode_adsorbent := ''volume'' \<rparr>, [])
   \<and> area_BET_raw scipy_lsq [1] [1/10, 1/5] nitrogen_cross_section None [] =
        (Inl (Exception ''The length of the pressure and loading arrays do not match''), [])
   \<and> area_BET stored_columns scipy_lsq (example_isotherm\<lparr> ads_loading := [1] \<rparr>) None [] =
        (Inl (Exception ''The length of the pressure and loading arrays do not match''),
         example_isotherm\<lparr> mode_pressure := ''relative'', ads_loading := [1],
                            ads_pressure := example_pressure \<rparr>, [])"
  using precondition_checks_in_call_order
          [where isotherm = "example_isotherm\<lparr> mode_adsorbent := ''volume'' \<rparr>"
             and col = stored_columns and lib = scipy_lsq and limits = None and channel = "[]"
             and pressure = "[1/10, 1/5]" and loading = "[1]" and cross_section = nitrogen_cross_section
             and sample = "example_isotherm\<lparr> ads_loading := [1] \<rparr>"
             and ?sample1.0 = "example_isotherm\<lparr> mode_pressure := ''relative'', ads_loading := [1],
                                                 ads_pressure := example_pressure \<rparr>"]
  by (simp add: example_isotherm_def example_pressure_def stored_columns_def convert_pressure_mode_def)

text \<open>
  The claim as stated fails on a sample in absolute pressure with four pressures and two
  loadings: when the length exception arrives, the stored pressures 10000 to 40000 have
  already been rescaled to 0.1 to 0.4 and the pressure mode set to "relative". With an
  adsorbate the lookup does not know, the same sample ends with the lookup's error and
  the length check is never reached.
\<close>

theorem length_check_after_conversion_and_lookup:
  "length (ads_pressure (example_isotherm\<lparr> ads_loading := [1, 2] \<rparr>))
     \<noteq> length (ads_loading (example_isotherm\<lparr> ads_loading := [1, 2] \<rparr>))
   \<and> ads_pressure (example_isotherm\<lparr> ads_loading := [1, 2] \<rparr>) = [10000, 20000, 30000, 40000]
   \<and> mode_pressure (example_isotherm\<lparr> ads_loading := [1, 2] \<rparr>) = ''absolute''
   \<and> area_BET stored_columns scipy_lsq (example_isotherm\<lparr> ads_loading := [1, 2] \<rparr>) None [] =
        (Inl (Exception ''The length of the pressure and loading arrays do not match''),
         example_isotherm\<lparr> mode_pressure := ''relative'', ads_loading := [1, 2],
                            ads_pressure := [1/10, 1/5, 3/10, 2/5] \<rparr>, [])
   \<and> area_BET stored_columns scipy_lsq
         (example_isotherm\<lparr> adsorbate := ''Xe'', ads_loading := [1, 2] \<rparr>) None [] =
        (Inl (Exception ''adsorbate not found''),
         example_isotherm\<lparr> mode_pressure := ''relative'', adsorbate := ''Xe'', ads_loading := [1, 2],
                            ads_pressure := [1/10, 1/5, 3/10, 2/5] \<rparr>, [])"
proof -
  have known: "area_BET stored_columns scipy_lsq (example_isotherm\<lparr> ads_loading := [1, 2] \<rparr>) None [] =
        (Inl (Exception ''The length of the pressure and loading arrays do not match''),
         example_isotherm\<lparr> mode_pressure := ''relative'', ads_loading := [1, 2],
                            ads_pressure := [1/10, 1/5, 3/10, 2/5] \<rparr>, [])"
    using area_BET_length_mismatch
        [where isotherm = "example_isotherm\<lparr> ads_loading := [1, 2] \<rparr>"
           and col = stored_columns and lib = scipy_lsq and limits = None and channel = "[]"
           and ?isotherm1.0 = "example_isotherm\<lparr> mode_pressure := ''relative'', ads_loading := [1, 2],
                                                  ads_pressure := [1/10, 1/5, 3/10, 2/5] \<rparr>"]
    by (simp add: example_isotherm_def stored_columns_def convert_pressure_mode_def)
  have unknown: "area_BET stored_columns scipy_lsq
         (example_isotherm\<lparr> adsorbate := ''Xe'', ads_loading := [1, 2] \<rparr>) None [] =
        (Inl (Exception ''adsorbate not found''),
         example_isotherm\<lparr> mode_pressure := ''relative'', adsorbate := ''Xe'', ads_loading := [1, 2],
                            ads_pressure := [1/10, 1/5, 3/10, 2/5] \<rparr>, [])"
    using area_BET_length_mismatch
        [where isotherm = "example_isotherm\<lparr> adsorbate := ''Xe'', ads_loading := [1, 2] \<rparr>"
           and col = stored_columns and lib = scipy_lsq and limits = None and channel = "[]"
           and ?isotherm1.0 = "example_isotherm\<lparr> mode_pressure := ''relative'', adsorbate := ''Xe'',
                                                  ads_loading := [1, 2],
                                                  ads_pressure := [1/10, 1/5, 3/10, 2/5] \<rparr>"]
    by (simp add: example_isotherm_def stored_columns_def convert_pressure_mode_def)
  have "length (ads_pressure (example_isotherm\<lparr> ads_loading := [1, 2] \<rparr>))
          \<noteq> length (ads_loading (example_isotherm\<lparr> ads_loading := [1, 2] \<rparr>))"
    and "ads_pressure (example_isotherm\<lparr> ads_loading := [1, 2] \<rparr>) = [10000, 20000, 30000, 40000]"
    and "mode_pressure (example_isotherm\<lparr> ads_loading := [1, 2] \<rparr>) = ''absolute''"
    by (simp_all add: example_isotherm_def)
  with known unknown show ?thesis by (intro conjI)
qed

subsection \<open>C7: the Henry model\<close>

text \<open>
  C7: for the Henry model with \<open>KH \<noteq> 0\<close>, \<^verbatim>\<open>pressure(loading(p)) = p\<close> for every
  pressure \<open>p\<close>, and the two operations are inverses of one another (over the reals).
\<close>

theorem Henry_pressure_loading_inverse:
  assumes "params self ''KH'' = Some KH" and "KH \<noteq> 0"
  shows "(case Henry_loading self p of Inl e \<Rightarrow> Inl e | Inr l \<Rightarrow> Henry_pressure self l) = Inr p
       \<and> (case Henry_pressure self l of Inl e \<Rightarrow> Inl e | Inr q \<Rightarrow> Henry_loading self q) = Inr l"
  using assms by (simp add: Henry_loading_def Henry_pressure_def dict_get_def)

theorem Henry_pressure_loading_inverse_witness:
  "params \<lparr> params = [''KH'' \<mapsto> 2] \<rparr> ''KH'' = Some 2 \<and> (2::real) \<noteq> 0
   \<and> Henry_loading \<lparr> params = [''KH'' \<mapsto> 2] \<rparr> 3 = Inr 6
   \<and> (case Henry_loading \<lparr> params = [''KH'' \<mapsto> 2] \<rparr> 3 of Inl e \<Rightarrow> Inl e
        | Inr l \<Rightarrow> Henry_pressure \<lparr> params = [''KH'' \<mapsto> 2] \<rparr> l) = Inr 3"
  using Henry_pressure_loading_inverse [of "\<lparr> params = [''KH'' \<mapsto> 2] \<rparr>" 2 3 0]
  by (simp add: Henry_loading_def dict_get_def)

subsection \<open>C8: Virial.fit\<close>

text \<open>
  C8: for loading and pressure data of equal length, \<^verbatim>\<open>Virial.fit\<close> hands
  \<^verbatim>\<open>polyfit\<close> the loadings, the values \<open>ln (pressure / loading)\<close> and the degree 3;
  of the returned coefficients, highest degree first, the first becomes \<open>C\<close>, the
  second \<open>B\<close>, the third \<open>A\<close>, and \<open>KH\<close> is the exponential of minus the constant
  term; the returned error is \<open>sqrt (residual sum of squares / number of points)\<close>.
\<close>

theorem Virial_fit_coefficients:
  assumes "length loading = length pressure"
    and "polyfit np loading (map2 (\<lambda>p n. ln (p / n)) pressure loading) 3
           = Inr ([c_cube, c_square, c_linear, c_constant], residuals)"
  shows "Virial_fit np self loading pressure param_guess optimization_method =
           (Inr (map (\<lambda>rss. sqrt (rss / real (length pressure))) residuals),
            self\<lparr> params := (params self)(''KH'' \<mapsto> exp (- c_constant), ''A'' \<mapsto> c_linear,
                                           ''B'' \<mapsto> c_square, ''C'' \<mapsto> c_cube) \<rparr>)"
  using assms
  by (simp add: Virial_fit_def np_elementwise_def py_index_def split_def Let_def comp_def)

theorem Virial_fit_coefficients_witness:
  "length [1, 2, 3, 4, 5 :: real] = length [1, 2, 3, 4, 5 :: real]
   \<and> polyfit polyfit_zero [1, 2, 3, 4, 5] (map2 (\<lambda>p n. ln (p / n)) [1, 2, 3, 4, 5] [1, 2, 3, 4, 5]) 3
        = Inr ([0, 0, 0, 0], [0])
   \<and> Virial_fit polyfit_zero \<lparr> params = Map.empty \<rparr> [1, 2, 3, 4, 5] [1, 2, 3, 4, 5] Map.empty ''Nelder-Mead''
        = (Inr [0], \<lparr> params = [''KH'' \<mapsto> 1, ''A'' \<mapsto> 0, ''B'' \<mapsto> 0, ''C'' \<mapsto> 0] \<rparr>)"
proof -
  have h: "polyfit polyfit_zero [1, 2, 3, 4, 5] (map2 (\<lambda>p n. ln (p / n)) [1, 2, 3, 4, 5] [1, 2, 3, 4, 5]) 3
        = Inr ([0, 0, 0, 0], [0])"
    by (simp add: polyfit_zero_def numeral_eq_Suc)
  show ?thesis
    using Virial_fit_coefficients [of "[1, 2, 3, 4, 5]" "[1, 2, 3, 4, 5]" polyfit_zero 0 0 0 0 "[0]"
        "\<lparr> params = Map.empty \<rparr>" Map.empty "''Nelder-Mead''"] h
    by simp
qed

subsection \<open>C9: Virial.spreading_pressure\<close>

text \<open>
  C9: \<^verbatim>\<open>spreading_pressure\<close> on the Virial model raises \<^verbatim>\<open>NotImplementedError\<close> for
  every model state and every pressure, and never returns a value.
\<close>

theorem Virial_spreading_pressure_not_implemented:
  "Virial_spreading_pressure self pressure = Inl NotImplementedError
   \<and> (\<nexists>v. Virial_spreading_pressure self pressure = Inr v)"
  by (simp add: Virial_spreading_pressure_def)

subsection \<open>C10: the arguments Virial.fit ignores\<close>

text \<open>
  C10: the parameters assigned by \<^verbatim>\<open>Virial.fit\<close> and the value it returns depend only
  on the model, the loading and the pressure: two calls that differ in
  \<^verbatim>\<open>param_guess\<close> and \<^verbatim>\<open>optimization_method\<close> give the same result and the same model.
\<close>

theorem Virial_fit_ignores_guess_and_method:
  "Virial_fit np self loading pressure guess1 method1 = Virial_fit np self loading pressure guess2 method2"
  by (simp add: Virial_fit_def)

end
